theory Spec2Isabelle
  imports Main "HOL-Library.Sublist"
begin

section \<open>Python values used by both applications\<close>

text \<open>
  The repository holds two Flask applications: \<^verbatim>\<open>27100212.py\<close> (the Instagram post
  generator) and \<^verbatim>\<open>26100450.py\<close> (the legal research assistant).  Their handlers are
  embedded here as HOL functions.  A Python \<^verbatim>\<open>str\<close> is a sequence of code points; it is
  modelled as a \<^typ>\<open>string\<close> whose characters are read as the code points U+0000 to
  U+00FF, so the theory speaks about texts within that range.  An exception is a value
  \<open>Error cls msg\<close>: the class name and what \<^verbatim>\<open>str(e)\<close> returns.
\<close>

datatype error = Error (exn_class: string) (str: string)

subsection \<open>String methods\<close>

text \<open>\<^verbatim>\<open>str.isdigit\<close>: the decimal digits and, within U+0000..U+00FF, the superscripts
  two, three and one (U+00B2, U+00B3, U+00B9), which are digits but not decimals.\<close>

definition isdigit :: "char \<Rightarrow> bool" where
  "isdigit c =
     (let n = (of_char c :: nat)
      in (0x30 \<le> n \<and> n \<le> 0x39) \<or> n = 0xB2 \<or> n = 0xB3 \<or> n = 0xB9)"

definition decimal_value :: "char \<Rightarrow> int option" where
  "decimal_value c =
     (let n = (of_char c :: int)
      in if 0x30 \<le> n \<and> n \<le> 0x39 then Some (n - 0x30) else None)"

text \<open>\<^verbatim>\<open>str.upper\<close>, character by character.  A small letter (a to z, and U+00E0 to
  U+00FE without the division sign U+00F7) has its capital 32 code points below, which
  is the same character with bit 5 cleared.  The sharp s becomes two letters.  The micro
  sign U+00B5 and the y with diaeresis U+00FF have their capitals above U+00FF; they are
  left in place, which is the same for every comparison with an ASCII marker.\<close>

fun clear_bit5 :: "char \<Rightarrow> char" where
  "clear_bit5 (Char b0 b1 b2 b3 b4 b5 b6 b7) = Char b0 b1 b2 b3 b4 False b6 b7"

definition upper_char :: "char \<Rightarrow> string" where
  "upper_char c =
     (let n = (of_char c :: nat)
      in if n = 0xDF then ''SS''
         else if (0x61 \<le> n \<and> n \<le> 0x7A) \<or> (0xE0 \<le> n \<and> n \<le> 0xFE \<and> n \<noteq> 0xF7)
         then [clear_bit5 c]
         else [c])"

definition upper :: "string \<Rightarrow> string" where
  "upper s = concat (map upper_char s)"

text \<open>\<^verbatim>\<open>sub in s\<close> on strings: \<open>sub\<close> occurs in \<open>s\<close> as a contiguous piece.\<close>

fun startswith :: "string \<Rightarrow> string \<Rightarrow> bool" where
  "startswith s [] = True"
| "startswith [] (p # ps) = False"
| "startswith (c # cs) (p # ps) = (c = p \<and> startswith cs ps)"

fun str_in :: "string \<Rightarrow> string \<Rightarrow> bool" where
  "str_in sub [] = (sub = [])"
| "str_in sub (c # cs) = (startswith (c # cs) sub \<or> str_in sub cs)"

text \<open>\<^verbatim>\<open>s.split(sep)\<close> for a separator of one character: the pieces between the
  separators, empty pieces included, so the result is never the empty list.\<close>

fun split_from :: "char \<Rightarrow> string \<Rightarrow> string \<Rightarrow> string list" where
  "split_from sep cur [] = [rev cur]"
| "split_from sep cur (c # cs) =
     (if c = sep then rev cur # split_from sep [] cs else split_from sep (c # cur) cs)"

definition str_split :: "string \<Rightarrow> char \<Rightarrow> string list" where
  "str_split s sep = split_from sep [] s"

text \<open>\<^verbatim>\<open>sep.join(parts)\<close>.\<close>

fun join :: "string \<Rightarrow> string list \<Rightarrow> string" where
  "join sep [] = []"
| "join sep [p] = p"
| "join sep (p # q # ps) = p @ sep @ join sep (q # ps)"

text \<open>\<^verbatim>\<open>str(n)\<close> for a natural number, and \<^verbatim>\<open>repr(s)\<close> for a string that needs no
  escapes, which is the string between two apostrophes.\<close>

definition digit_char :: "nat \<Rightarrow> char" where
  "digit_char d = ''0123456789'' ! d"

function str_of_nat :: "nat \<Rightarrow> string" where
  "str_of_nat n =
     (if n < 10 then [digit_char n] else str_of_nat (n div 10) @ [digit_char (n mod 10)])"
  by pat_completeness auto
termination
  by (relation "measure id") auto

definition quoted :: "string \<Rightarrow> string" where
  "quoted s = [CHR 0x27] @ s @ [CHR 0x27]"

text \<open>\<^verbatim>\<open>int(s)\<close> for the strings that reach it in this program, which hold
  \<^verbatim>\<open>isdigit\<close> characters only: it raises \<^verbatim>\<open>ValueError\<close> on the empty string, on a
  character that is not a decimal, and on more digits than the interpreter's limit for
  the conversion, which is 4300 unless the interpreter is started with another one;
  otherwise it returns the number the digits write in base ten.\<close>

definition int_max_str_digits :: nat where
  "int_max_str_digits = 4300"

fun int_digits :: "int \<Rightarrow> string \<Rightarrow> int option" where
  "int_digits acc [] = Some acc"
| "int_digits acc (c # cs) =
     (case decimal_value c of
        None \<Rightarrow> None
      | Some d \<Rightarrow> int_digits (10 * acc + d) cs)"

definition invalid_literal :: "string \<Rightarrow> error" where
  "invalid_literal s =
     Error ''ValueError'' (''invalid literal for int() with base 10: '' @ quoted s)"

definition exceeds_limit :: "string \<Rightarrow> error" where
  "exceeds_limit s =
     Error ''ValueError''
       (''Exceeds the limit ('' @ str_of_nat int_max_str_digits
        @ '' digits) for integer string conversion: value has '' @ str_of_nat (length s)
        @ '' digits; use sys.set_int_max_str_digits() to increase the limit'')"

definition py_int :: "string \<Rightarrow> error + int" where
  "py_int s =
     (if s = [] then Inl (invalid_literal s)
      else if int_max_str_digits < length s then Inl (exceeds_limit s)
      else case int_digits 0 s of
             None \<Rightarrow> Inl (invalid_literal s)
           | Some n \<Rightarrow> Inr n)"

section \<open>The post generator: reading the plan\<close>

text \<open>
  \<^verbatim>\<open>generate_post\<close> reads two fields from the text of the planning response.  The two
  loops of the handler are the functions \<open>scan_post_type\<close> and \<open>scan_image_count\<close>; the
  second argument is the variable the loop assigns, and leaving the recursion is the
  \<^verbatim>\<open>break\<close>.  \<open>count_from_line\<close> is the body of the \<^verbatim>\<open>try\<close>, and the bare
  \<^verbatim>\<open>except\<close> of the source is the \<open>Inl\<close> case in \<open>scan_image_count\<close>.
\<close>

datatype post_type = SINGLE | CAROUSEL

definition newline :: char where
  "newline = CHR 0x0A"

fun scan_post_type :: "string list \<Rightarrow> post_type \<Rightarrow> post_type" where
  "scan_post_type [] post_type = post_type"
| "scan_post_type (line # rest) post_type =
     (if str_in ''POST_TYPE:'' (upper line)
      then (if str_in ''CAROUSEL'' (upper line) then CAROUSEL else post_type)
      else scan_post_type rest post_type)"

definition count_from_line :: "string \<Rightarrow> int \<Rightarrow> error + int" where
  "count_from_line line image_count =
     (let count_str = filter isdigit line in
      if count_str \<noteq> []
      then (case py_int count_str of
              Inl e \<Rightarrow> Inl e
            | Inr n \<Rightarrow> Inr (max 2 (min 10 n)))
      else Inr image_count)"

fun scan_image_count :: "string list \<Rightarrow> int \<Rightarrow> error + int" where
  "scan_image_count [] image_count = Inr image_count"
| "scan_image_count (line # rest) image_count =
     (if str_in ''IMAGE_COUNT:'' (upper line)
      then (case count_from_line line image_count of
              Inl e \<Rightarrow> Inr 3
            | Inr n \<Rightarrow> Inr n)
      else scan_image_count rest image_count)"

definition parse_plan :: "string \<Rightarrow> error + post_type \<times> int" where
  "parse_plan plan_text =
     (let post_type = scan_post_type (str_split plan_text newline) SINGLE;
          image_count = 1
      in if post_type = CAROUSEL
         then (case scan_image_count (str_split plan_text newline) image_count of
                 Inl e \<Rightarrow> Inl e
               | Inr n \<Rightarrow> Inr (post_type, n))
         else Inr (post_type, image_count))"

text \<open>
  The specification words the count differently: the first contiguous run of decimal
  digits of the marker line, clamped, with 3 for a line without digits or a failed
  conversion.  \<open>claimed_count_of_line\<close> follows those words, for comparison with the
  code.
\<close>

definition first_digit_run :: "string \<Rightarrow> string" where
  "first_digit_run line = takeWhile isdigit (dropWhile (\<lambda>c. \<not> isdigit c) line)"

definition claimed_count_of_line :: "string \<Rightarrow> int" where
  "claimed_count_of_line line =
     (let run = first_digit_run line
      in if run = [] then 3
         else case py_int run of
                Inl e \<Rightarrow> 3
              | Inr n \<Rightarrow> max 2 (min 10 n))"

section \<open>JSON values, requests and responses\<close>

text \<open>
  A parsed JSON document, as \<^verbatim>\<open>request.get_json()\<close> returns it.  An object keeps its
  members in the order of the document; Python's parser lets a later member override an
  earlier one with the same key, which \<open>dict_get\<close> follows.  JSON numbers are kept as
  integers; a fractional number behaves like a non-zero integer wherever these handlers
  look at it.
\<close>

datatype json =
    JNull
  | JBool bool
  | JNum int
  | JStr string
  | JArr "json list"
  | JObj "(string \<times> json) list"

text \<open>What a handler returns: the status code and the members of the JSON body that
  \<^verbatim>\<open>jsonify\<close> builds.\<close>

record response =
  status :: nat
  body :: "(string \<times> json) list"

text \<open>\<^verbatim>\<open>data.get(key)\<close> and \<^verbatim>\<open>data.get(key, default)\<close>: only a dict has the method; on
  any other value the attribute lookup raises, and the message names the type of the
  value.\<close>

definition no_attribute :: "string \<Rightarrow> string \<Rightarrow> error" where
  "no_attribute type_name name =
     Error ''AttributeError''
       (quoted type_name @ '' object has no attribute '' @ quoted name)"

fun json_type_name :: "json \<Rightarrow> string" where
  "json_type_name JNull = ''NoneType''"
| "json_type_name (JBool b) = ''bool''"
| "json_type_name (JNum n) = ''int''"
| "json_type_name (JStr s) = ''str''"
| "json_type_name (JArr xs) = ''list''"
| "json_type_name (JObj members) = ''dict''"

fun dict_get :: "json \<Rightarrow> string \<Rightarrow> json \<Rightarrow> error + json" where
  "dict_get (JObj members) key default_value =
     (case map_of (rev members) key of None \<Rightarrow> Inr default_value | Some v \<Rightarrow> Inr v)"
| "dict_get other key default_value = Inl (no_attribute (json_type_name other) ''get'')"

text \<open>\<^verbatim>\<open>str.isspace\<close> within U+0000..U+00FF and \<^verbatim>\<open>s.strip()\<close>; only a string has
  \<^verbatim>\<open>strip\<close>.\<close>

definition isspace :: "char \<Rightarrow> bool" where
  "isspace c =
     (let n = (of_char c :: nat)
      in (0x09 \<le> n \<and> n \<le> 0x0D) \<or> (0x1C \<le> n \<and> n \<le> 0x20) \<or> n = 0x85 \<or> n = 0xA0)"

definition strip :: "string \<Rightarrow> string" where
  "strip s = rev (dropWhile isspace (rev (dropWhile isspace s)))"

fun json_strip :: "json \<Rightarrow> error + string" where
  "json_strip (JStr s) = Inr (strip s)"
| "json_strip other = Inl (no_attribute (json_type_name other) ''strip'')"

section \<open>The legal research assistant\<close>

text \<open>
  The blocks of a response message.  The text of a block that is not a text block is
  kept as one opaque string.  \<open>block_type\<close> is the attribute \<^verbatim>\<open>type\<close>, \<open>block_class\<close> the
  name of the block's class, and \<open>block_text\<close> the attribute \<^verbatim>\<open>text\<close>, which only a text
  block has.
\<close>

datatype content_block =
    TextBlock string
  | ThinkingBlock string
  | RedactedThinkingBlock string
  | ToolUseBlock string
  | ServerToolUseBlock string
  | WebSearchToolResultBlock string

fun block_type :: "content_block \<Rightarrow> string" where
  "block_type (TextBlock t) = ''text''"
| "block_type (ThinkingBlock t) = ''thinking''"
| "block_type (RedactedThinkingBlock d) = ''redacted_thinking''"
| "block_type (ToolUseBlock u) = ''tool_use''"
| "block_type (ServerToolUseBlock u) = ''server_tool_use''"
| "block_type (WebSearchToolResultBlock r) = ''web_search_tool_result''"

fun block_class :: "content_block \<Rightarrow> string" where
  "block_class (TextBlock t) = ''BetaTextBlock''"
| "block_class (ThinkingBlock t) = ''BetaThinkingBlock''"
| "block_class (RedactedThinkingBlock d) = ''BetaRedactedThinkingBlock''"
| "block_class (ToolUseBlock u) = ''BetaToolUseBlock''"
| "block_class (ServerToolUseBlock u) = ''BetaServerToolUseBlock''"
| "block_class (WebSearchToolResultBlock r) = ''BetaWebSearchToolResultBlock''"

fun block_text :: "content_block \<Rightarrow> error + string" where
  "block_text (TextBlock t) = Inr t"
| "block_text other = Inl (no_attribute (block_class other) ''text'')"

record message =
  content :: "content_block list"

text \<open>\<^verbatim>\<open>extract_text_from_response\<close>: the loop appends to \<^verbatim>\<open>text_parts\<close>, the second
  argument of \<open>collect_text\<close>.\<close>

fun collect_text :: "content_block list \<Rightarrow> string list \<Rightarrow> error + string list" where
  "collect_text [] text_parts = Inr text_parts"
| "collect_text (block # rest) text_parts =
     (if block_type block = ''text''
      then (case block_text block of
              Inl e \<Rightarrow> Inl e
            | Inr t \<Rightarrow> collect_text rest (text_parts @ [t]))
      else collect_text rest text_parts)"

definition extract_text_from_response :: "message \<Rightarrow> error + string" where
  "extract_text_from_response msg =
     (case collect_text (content msg) [] of
        Inl e \<Rightarrow> Inl e
      | Inr text_parts \<Rightarrow> Inr (join [newline, newline] text_parts))"

text \<open>
  The remote model.  \<^verbatim>\<open>client.beta.messages.create\<close> is a call to a service outside
  the program: it is a parameter of the model, a function from the arguments of the call
  and the state of the outside world to either an exception or a message, and the next
  state.  The arguments that vary are the conversation and whether web search is
  offered; the long fixed instruction text of the first call is represented by
  \<open>Research_instructions\<close> applied to the question it is built around.
\<close>

datatype prompt = Research_instructions string | Plain string

datatype turn_content = Input_text prompt | Blocks "content_block list"

record create_args =
  system :: "string option"
  messages :: "(string \<times> turn_content) list"
  web_search :: bool

type_synonym 'w messages_api = "create_args \<Rightarrow> 'w \<Rightarrow> (error + message) \<times> 'w"

definition make_initial_research_call ::
  "'w messages_api \<Rightarrow> string \<Rightarrow> 'w \<Rightarrow> (error + message) \<times> 'w" where
  "make_initial_research_call create user_prompt =
     create \<lparr>system = None,
             messages = [(''user'', Input_text (Research_instructions user_prompt))],
             web_search = True\<rparr>"

definition make_followup_call ::
  "'w messages_api \<Rightarrow> string \<Rightarrow> message \<Rightarrow> string \<Rightarrow> 'w \<Rightarrow> (error + message) \<times> 'w" where
  "make_followup_call create user_prompt first_message followup_prompt =
     create \<lparr>system = Some ''STYLE: CONCISE, EXPLANATORY. You are a legal assistant specializing in Indian case law'',
             messages = [(''user'', Input_text (Plain user_prompt)),
                         (''assistant'', Blocks (content first_message)),
                         (''user'', Input_text (Plain followup_prompt))],
             web_search = False\<rparr>"

text \<open>
  The handler of \<^verbatim>\<open>POST /research\<close>.  Its argument \<open>get_json\<close> is what
  \<^verbatim>\<open>request.get_json()\<close> does for the request: it raises for a body that is not JSON,
  and returns the parsed document otherwise.  \<open>read_question\<close> is the first statements
  of the \<^verbatim>\<open>try\<close> block, \<open>research_try\<close> the whole block, and \<open>research\<close> adds the
  \<^verbatim>\<open>except Exception\<close> clause.
\<close>

definition read_question :: "error + json \<Rightarrow> error + string" where
  "read_question get_json =
     (case get_json of
        Inl e \<Rightarrow> Inl e
      | Inr data \<Rightarrow>
          (case dict_get data ''question'' (JStr []) of
             Inl e \<Rightarrow> Inl e
           | Inr q \<Rightarrow> json_strip q))"

definition research_try ::
  "'w messages_api \<Rightarrow> error + json \<Rightarrow> 'w \<Rightarrow> (error + response) \<times> 'w" where
  "research_try create get_json w =
     (case read_question get_json of
        Inl e \<Rightarrow> (Inl e, w)
      | Inr question \<Rightarrow>
          if question = []
          then (Inr \<lparr>status = 400,
                     body = [(''error'', JStr ''Please provide a legal question.'')]\<rparr>, w)
          else
            (case make_initial_research_call create question w of
               (Inl e, w1) \<Rightarrow> (Inl e, w1)
             | (Inr first_response, w1) \<Rightarrow>
                 (case make_followup_call create question first_response question w1 of
                    (Inl e, w2) \<Rightarrow> (Inl e, w2)
                  | (Inr second_response, w2) \<Rightarrow>
                      (case extract_text_from_response second_response of
                         Inl e \<Rightarrow> (Inl e, w2)
                       | Inr final_result \<Rightarrow>
                           (Inr \<lparr>status = 200,
                                 body = [(''result'', JStr final_result),
                                         (''success'', JBool True)]\<rparr>, w2)))))"

definition research ::
  "'w messages_api \<Rightarrow> error + json \<Rightarrow> 'w \<Rightarrow> response \<times> 'w" where
  "research create get_json w =
     (case research_try create get_json w of
        (Inl e, w') \<Rightarrow>
          (\<lparr>status = 500,
            body = [(''error'',
                     JStr (''An error occurred while processing your request: '' @ str e)),
                    (''success'', JBool False)]\<rparr>, w')
      | (Inr r, w') \<Rightarrow> (r, w'))"

abbreviation research_failed :: "error \<Rightarrow> response" where
  "research_failed e \<equiv>
     \<lparr>status = 500,
      body = [(''error'', JStr (''An error occurred while processing your request: '' @ str e)),
              (''success'', JBool False)]\<rparr>"

text \<open>
  A remote model for the examples: the state of the outside world is the number of calls
  made so far, and the service answers the first ten calls.  Its answer to the first
  call of a request holds reasoning, a tool use and one text; its answer to the
  follow-up call repeats the question it finds in the first turn of the conversation.
\<close>

definition rate_limited :: error where
  "rate_limited = Error ''RateLimitError'' ''rate limit exceeded''"

fun answer :: "create_args \<Rightarrow> message" where
  "answer args =
     (if web_search args
      then \<lparr>content = [ThinkingBlock ''which courts'', ServerToolUseBlock ''web_search'',
                       TextBlock ''Cases found'']\<rparr>
      else (case messages args of
              (role, Input_text (Plain q)) # rest \<Rightarrow>
                \<lparr>content = [ThinkingBlock ''tighten'', TextBlock (''On '' @ q),
                            RedactedThinkingBlock ''...'', TextBlock ''Cases'',
                            TextBlock ''Caveats'']\<rparr>
            | other \<Rightarrow> \<lparr>content = []\<rparr>))"

definition ten_calls :: "nat messages_api" where
  "ten_calls args calls =
     (if calls < 10 then (Inr (answer args), Suc calls) else (Inl rate_limited, Suc calls))"

section \<open>The post generator: the world around the handlers\<close>

text \<open>
  The two tables of \<^verbatim>\<open>instagram_posts.db\<close>.  Rows are kept in the order of insertion.
  \<open>posts_sequence\<close> and \<open>post_images_sequence\<close> are the counters SQLite keeps for
  \<^verbatim>\<open>AUTOINCREMENT\<close> keys: a new key is one more than the largest key ever used.  The
  column \<^verbatim>\<open>post_type\<close> holds the string SINGLE or CAROUSEL; the row keeps the type
  itself.
\<close>

record post_row =
  p_id :: nat
  p_headline :: string
  p_content :: string
  p_news_link :: string
  p_post_type :: post_type
  p_plan :: string
  p_caption :: string
  p_created_at :: string

record image_row =
  i_id :: nat
  i_post_id :: nat
  i_image_url :: string
  i_image_prompt :: string
  i_sequence_order :: nat

record database =
  posts :: "post_row list"
  post_images :: "image_row list"
  posts_sequence :: nat
  post_images_sequence :: nat

definition next_rowid :: "nat \<Rightarrow> nat list \<Rightarrow> nat" where
  "next_rowid sequence ids = Suc (fold max ids sequence)"

text \<open>
  What the handlers reach outside the process: the model behind
  \<^verbatim>\<open>client.responses.create\<close>, the image model behind \<^verbatim>\<open>client.images.generate\<close>,
  the clock, SQLite and the file system.  The committed database and the names of the
  files in \<^verbatim>\<open>static/images\<close> are part of the world; everything else about it is the
  component \<open>outside\<close>, of which nothing is assumed.  The services are parameters:
  each takes the outside state and returns its answer, or the exception it raises, with
  the next outside state.  \<open>fails\<close> says for each database and file operation whether
  it raises when it is attempted.

  The text of a request to the model is a fixed template filled with values; it is
  represented by the template and the values (\<open>post_input\<close>).
\<close>

record model_response =
  output_text :: string
  response_id :: string

datatype post_input =
    Planning_input json json json
  | Single_image_input
  | Carousel_image_input int int
  | Caption_input post_type "string list" json

record responses_args =
  effort :: string
  use_web_search :: bool
  previous_response_id :: "string option"
  input :: post_input

datatype operation =
    Sqlite_connect
  | Sqlite_execute
  | Sqlite_commit
  | Sqlite_close
  | Write_file string
  | Unlink_file string

record 'x services =
  responses_create :: "responses_args \<Rightarrow> 'x \<Rightarrow> (error + model_response) \<times> 'x"
  images_generate :: "string \<Rightarrow> 'x \<Rightarrow> (error + string) \<times> 'x"
  b64decode :: "string \<Rightarrow> error + string"
  timestamp_ms :: "'x \<Rightarrow> nat \<times> 'x"
  current_timestamp :: "'x \<Rightarrow> string \<times> 'x"
  fails :: "operation \<Rightarrow> 'x \<Rightarrow> error option \<times> 'x"

record 'x world =
  db :: database
  image_files :: "string set"
  outside :: 'x

text \<open>
  A statement sequence that may raise is a function from the world to a result and the
  next world.  \<open>and_then\<close> runs the next statement on the value of the previous one and
  passes an exception on; \<open>call\<close> and \<open>ask\<close> consult a service; \<open>attempt\<close> is the
  point where a database or file operation may raise.
\<close>

definition returns :: "'a \<Rightarrow> 'w \<Rightarrow> (error + 'a) \<times> 'w" where
  "returns a w = (Inr a, w)"

definition from_result :: "error + 'a \<Rightarrow> 'w \<Rightarrow> (error + 'a) \<times> 'w" where
  "from_result r w = (r, w)"

definition and_then ::
  "('w \<Rightarrow> (error + 'a) \<times> 'w) \<Rightarrow> ('a \<Rightarrow> 'w \<Rightarrow> (error + 'b) \<times> 'w) \<Rightarrow> 'w \<Rightarrow> (error + 'b) \<times> 'w" where
  "and_then m f w = (case m w of (Inl e, w') \<Rightarrow> (Inl e, w') | (Inr a, w') \<Rightarrow> f a w')"

definition call :: "('x \<Rightarrow> (error + 'a) \<times> 'x) \<Rightarrow> 'x world \<Rightarrow> (error + 'a) \<times> 'x world" where
  "call service w = (case service (outside w) of (r, x) \<Rightarrow> (r, w\<lparr>outside := x\<rparr>))"

definition ask :: "('x \<Rightarrow> 'a \<times> 'x) \<Rightarrow> 'x world \<Rightarrow> (error + 'a) \<times> 'x world" where
  "ask service w = (case service (outside w) of (a, x) \<Rightarrow> (Inr a, w\<lparr>outside := x\<rparr>))"

definition attempt :: "'x services \<Rightarrow> operation \<Rightarrow> 'x world \<Rightarrow> (error + unit) \<times> 'x world" where
  "attempt svc operation w =
     (case fails svc operation (outside w) of
        (None, x) \<Rightarrow> (Inr (), w\<lparr>outside := x\<rparr>)
      | (Some e, x) \<Rightarrow> (Inl e, w\<lparr>outside := x\<rparr>))"

text \<open>The \<^verbatim>\<open>except Exception\<close> clause of the three handlers of the post generator.\<close>

definition or_500 :: "(error + response) \<times> 'w \<Rightarrow> response \<times> 'w" where
  "or_500 outcome =
     (case outcome of
        (Inl e, w') \<Rightarrow> (\<lparr>status = 500, body = [(''error'', JStr (str e))]\<rparr>, w')
      | (Inr r, w') \<Rightarrow> (r, w'))"

section \<open>The post generator: reading and deleting a post\<close>

fun type_name :: "post_type \<Rightarrow> string" where
  "type_name SINGLE = ''SINGLE''"
| "type_name CAROUSEL = ''CAROUSEL''"

definition image_json :: "image_row \<Rightarrow> json" where
  "image_json row =
     JObj [(''url'', JStr (i_image_url row)),
           (''prompt'', JStr (i_image_prompt row)),
           (''order'', JNum (int (i_sequence_order row)))]"

definition post_json :: "post_row \<Rightarrow> json list \<Rightarrow> json" where
  "post_json row images =
     JObj [(''id'', JNum (int (p_id row))),
           (''headline'', JStr (p_headline row)),
           (''content'', JStr (p_content row)),
           (''news_link'', JStr (p_news_link row)),
           (''post_type'', JStr (type_name (p_post_type row))),
           (''plan'', JStr (p_plan row)),
           (''caption'', JStr (p_caption row)),
           (''created_at'', JStr (p_created_at row)),
           (''images'', JArr images)]"

text \<open>\<^verbatim>\<open>get_post\<close>: the first query finds the row of the post; without one the handler
  closes the connection and answers 404.  The second query reads the image rows of the
  post in the order of their sequence numbers.\<close>

definition get_post_try :: "'x services \<Rightarrow> nat \<Rightarrow> 'x world \<Rightarrow> (error + response) \<times> 'x world" where
  "get_post_try svc post_id =
     and_then (attempt svc Sqlite_connect) (\<lambda>u.
     and_then (attempt svc Sqlite_execute) (\<lambda>u w.
       case find (\<lambda>row. p_id row = post_id) (posts (db w)) of
         None \<Rightarrow>
           and_then (attempt svc Sqlite_close) (\<lambda>u.
           returns \<lparr>status = 404, body = [(''error'', JStr ''Post not found'')]\<rparr>) w
       | Some row \<Rightarrow>
           and_then (attempt svc Sqlite_execute) (\<lambda>u w1.
             let images =
                   map image_json
                     (sort_key i_sequence_order
                        (filter (\<lambda>r. i_post_id r = post_id) (post_images (db w1))))
             in and_then (attempt svc Sqlite_close) (\<lambda>u.
                returns \<lparr>status = 200, body = [(''post'', post_json row images)]\<rparr>) w1) w))"

definition get_post :: "'x services \<Rightarrow> nat \<Rightarrow> 'x world \<Rightarrow> response \<times> 'x world" where
  "get_post svc post_id w = or_500 (get_post_try svc post_id w)"

text \<open>\<^verbatim>\<open>delete_post\<close>.  The loop over the image files comes after the commit; each of its
  rounds has its own \<^verbatim>\<open>try\<close>, so a file that cannot be removed is skipped.  A file
  is removed when its name, the part of the URL after the last slash, is the name of a
  file in the image directory.\<close>

fun delete_image_files :: "'x services \<Rightarrow> string list \<Rightarrow> 'x world \<Rightarrow> 'x world" where
  "delete_image_files svc [] w = w"
| "delete_image_files svc (url # rest) w =
     (let filename = last (str_split url (CHR ''/''))
      in if filename \<in> image_files w
         then (case attempt svc (Unlink_file filename) w of
                 (Inl e, w') \<Rightarrow> delete_image_files svc rest w'
               | (Inr u, w') \<Rightarrow>
                   delete_image_files svc rest
                     (w'\<lparr>image_files := image_files w' - {filename}\<rparr>))
         else delete_image_files svc rest w)"

definition delete_post_try :: "'x services \<Rightarrow> nat \<Rightarrow> 'x world \<Rightarrow> (error + response) \<times> 'x world" where
  "delete_post_try svc post_id =
     and_then (attempt svc Sqlite_connect) (\<lambda>u.
     and_then (attempt svc Sqlite_execute) (\<lambda>u w.
       let conn = db w;
           image_urls =
             map i_image_url (filter (\<lambda>row. i_post_id row = post_id) (post_images conn))
       in and_then (attempt svc Sqlite_execute) (\<lambda>u.
          and_then (attempt svc Sqlite_execute) (\<lambda>u.
          and_then (attempt svc Sqlite_commit) (\<lambda>u w1.
            and_then (attempt svc Sqlite_close) (\<lambda>u w2.
              returns \<lparr>status = 200,
                       body = [(''success'', JBool True),
                               (''message'', JStr ''Post deleted successfully'')]\<rparr>
                (delete_image_files svc image_urls w2))
              (w1\<lparr>db := conn
                     \<lparr>post_images :=
                        filter (\<lambda>row. i_post_id row \<noteq> post_id) (post_images conn),
                      posts := filter (\<lambda>row. p_id row \<noteq> post_id) (posts conn)\<rparr>\<rparr>)))) w))"

definition delete_post :: "'x services \<Rightarrow> nat \<Rightarrow> 'x world \<Rightarrow> response \<times> 'x world" where
  "delete_post svc post_id w = or_500 (delete_post_try svc post_id w)"

text \<open>
  Services and a world for the examples.  The outside state counts the calls made.  The
  model answers the planning request with the given plan and every other request with a
  fixed text; no operation fails.  The database of the example holds a carousel with two
  images and a single post, and the image directory holds their three files.
\<close>

definition studio :: "string \<Rightarrow> nat services" where
  "studio plan =
     \<lparr>responses_create =
        (\<lambda>args n.
           (Inr \<lparr>output_text =
                   (case input args of
                      Planning_input h c l \<Rightarrow> plan
                    | Single_image_input \<Rightarrow> '' A lighthouse at dawn ''
                    | Carousel_image_input i t \<Rightarrow> ''A slide''
                    | Caption_input t ps l \<Rightarrow> ''Swipe to see more''),
                 response_id = ''resp_'' @ str_of_nat n\<rparr>,
            Suc n)),
      images_generate = (\<lambda>image_prompt n. (Inr ''aGVsbG8='', Suc n)),
      b64decode = (\<lambda>s. Inr ''hello''),
      timestamp_ms = (\<lambda>n. (1000 + n, Suc n)),
      current_timestamp = (\<lambda>n. (''2025-01-01 00:00:00'', n)),
      fails = (\<lambda>operation n. (None, n))\<rparr>"

definition two_posts :: database where
  "two_posts =
     \<lparr>posts =
        [\<lparr>p_id = 1, p_headline = ''Cup final'', p_content = ''The match'',
          p_news_link = ''http://news/1'', p_post_type = CAROUSEL, p_plan = ''plan'',
          p_caption = ''caption'', p_created_at = ''2024-12-31 10:00:00''\<rparr>,
         \<lparr>p_id = 2, p_headline = ''Award'', p_content = ''The prize'',
          p_news_link = ''http://news/2'', p_post_type = SINGLE, p_plan = ''plan'',
          p_caption = ''caption'', p_created_at = ''2024-12-31 11:00:00''\<rparr>],
      post_images =
        [\<lparr>i_id = 1, i_post_id = 1, i_image_url = ''/static/images/instagram_1.png'',
          i_image_prompt = ''kick-off'', i_sequence_order = 0\<rparr>,
         \<lparr>i_id = 2, i_post_id = 1, i_image_url = ''/static/images/instagram_2.png'',
          i_image_prompt = ''the goal'', i_sequence_order = 1\<rparr>,
         \<lparr>i_id = 3, i_post_id = 2, i_image_url = ''/static/images/instagram_3.png'',
          i_image_prompt = ''the trophy'', i_sequence_order = 0\<rparr>],
      posts_sequence = 2,
      post_images_sequence = 3\<rparr>"

definition newsroom :: "nat world" where
  "newsroom =
     \<lparr>db = two_posts,
      image_files = {''instagram_1.png'', ''instagram_2.png'', ''instagram_3.png''},
      outside = 0\<rparr>"

section \<open>Facts about the string methods\<close>

lemma startswith_iff_prefix: "startswith s p \<longleftrightarrow> prefix p s"
  by (induction s p rule: startswith.induct) auto

lemma str_in_iff_sublist: "str_in sub s \<longleftrightarrow> sublist sub s"
  by (induction s) (simp_all add: startswith_iff_prefix sublist_Cons_right)

lemma split_from_not_Nil: "split_from sep cur s \<noteq> []"
  by (induction s arbitrary: cur) simp_all

lemma split_from_no_sep:
  "sep \<notin> set cur \<Longrightarrow> l \<in> set (split_from sep cur s) \<Longrightarrow> sep \<notin> set l"
proof (induction s arbitrary: cur)
  case Nil
  then show ?case by auto
next
  case (Cons c cs)
  show ?case
  proof (cases "c = sep")
    case True
    with Cons.prems have "l = rev cur \<or> l \<in> set (split_from sep [] cs)"
      by simp
    then show ?thesis
      using Cons.prems(1) Cons.IH [of "[]"] by auto
  next
    case False
    with Cons.prems have "l \<in> set (split_from sep (c # cur) cs)"
      by simp
    then show ?thesis
      using False Cons.prems(1) Cons.IH [of "c # cur"] by auto
  qed
qed

lemma join_Cons: "ps \<noteq> [] \<Longrightarrow> join sep (p # ps) = p @ sep @ join sep ps"
  by (cases ps) simp_all

lemma join_split_from: "join [sep] (split_from sep cur s) = rev cur @ s"
proof (induction s arbitrary: cur)
  case Nil
  show ?case by simp
next
  case (Cons c cs)
  show ?case
  proof (cases "c = sep")
    case True
    then show ?thesis
      using Cons.IH [of "[]"] by (simp add: join_Cons split_from_not_Nil)
  next
    case False
    then show ?thesis
      using Cons.IH [of "c # cur"] by simp
  qed
qed

lemma join_str_split: "join [sep] (str_split s sep) = s"
  by (simp add: str_split_def join_split_from)

lemma str_split_no_sep: "l \<in> set (str_split s sep) \<Longrightarrow> sep \<notin> set l"
  unfolding str_split_def by (rule split_from_no_sep [of sep "[]"]) simp_all

lemma split_from_append:
  "sep \<notin> set l \<Longrightarrow> split_from sep cur (l @ rest) = split_from sep (rev l @ cur) rest"
  by (induction l arbitrary: cur) auto

lemma split_from_join:
  "\<forall>l\<in>set (l0 # ls). sep \<notin> set l \<Longrightarrow>
     split_from sep cur (join [sep] (l0 # ls)) = (rev cur @ l0) # ls"
proof (induction ls arbitrary: l0 cur)
  case Nil
  then show ?case
    using split_from_append [of sep l0 cur "[]"] by simp
next
  case (Cons l1 ls)
  have "split_from sep cur (l0 @ sep # join [sep] (l1 # ls)) =
          split_from sep (rev l0 @ cur) (sep # join [sep] (l1 # ls))"
    using Cons.prems split_from_append [of sep l0 cur] by simp
  also have "\<dots> = (rev cur @ l0) # split_from sep [] (join [sep] (l1 # ls))"
    by simp
  also have "split_from sep [] (join [sep] (l1 # ls)) = l1 # ls"
    using Cons.prems Cons.IH [of l1 "[]"] by simp
  finally show ?case
    by simp
qed

lemma str_split_join:
  "ls \<noteq> [] \<Longrightarrow> \<forall>l\<in>set ls. sep \<notin> set l \<Longrightarrow> str_split (join [sep] ls) sep = ls"
  using split_from_join [of "hd ls" "tl ls" sep "[]"]
  by (cases ls) (simp_all add: str_split_def)

lemma text_as_lines:
  "\<exists>ls. ls \<noteq> [] \<and> (\<forall>l\<in>set ls. sep \<notin> set l) \<and> join [sep] ls = s"
proof (intro exI conjI)
  show "str_split s sep \<noteq> []"
    by (simp add: str_split_def split_from_not_Nil)
  show "\<forall>l\<in>set (str_split s sep). sep \<notin> set l"
    using str_split_no_sep by blast
  show "join [sep] (str_split s sep) = s"
    by (rule join_str_split)
qed

section \<open>The type of the post\<close>

lemma scan_post_type_find:
  "scan_post_type ls d =
     (case find (\<lambda>l. str_in ''POST_TYPE:'' (upper l)) ls of
        None \<Rightarrow> d
      | Some l \<Rightarrow> if str_in ''CAROUSEL'' (upper l) then CAROUSEL else d)"
  by (induction ls) simp_all

lemma scan_image_count_find:
  "scan_image_count ls d =
     Inr (case find (\<lambda>l. str_in ''IMAGE_COUNT:'' (upper l)) ls of
            None \<Rightarrow> d
          | Some l \<Rightarrow>
              if filter isdigit l = [] then d
              else (case py_int (filter isdigit l) of
                      Inl e \<Rightarrow> 3
                    | Inr n \<Rightarrow> max 2 (min 10 n)))"
  by (induction ls) (simp_all add: count_from_line_def Let_def split: sum.splits)

text \<open>
  The parser in closed form, over the lines of the plan.  Every text is the join of its
  lines (\<open>text_as_lines\<close>), and a list of lines without a newline is what the split of
  their join gives back (\<open>str_split_join\<close>), so the statements below, made for a plan
  given by its lines \<open>ls\<close>, cover every plan.
\<close>

lemma parse_plan_lines:
  assumes "ls \<noteq> []" and "\<forall>l\<in>set ls. newline \<notin> set l"
  shows "parse_plan (join [newline] ls) =
     Inr (case find (\<lambda>l. sublist ''POST_TYPE:'' (upper l)) ls of
            None \<Rightarrow> (SINGLE, 1)
          | Some l \<Rightarrow>
              if \<not> sublist ''CAROUSEL'' (upper l) then (SINGLE, 1)
              else (CAROUSEL,
                    case find (\<lambda>l. sublist ''IMAGE_COUNT:'' (upper l)) ls of
                      None \<Rightarrow> 1
                    | Some l' \<Rightarrow>
                        if filter isdigit l' = [] then 1
                        else (case py_int (filter isdigit l') of
                                Inl e \<Rightarrow> 3
                              | Inr n \<Rightarrow> max 2 (min 10 n))))"
  by (simp add: parse_plan_def Let_def str_split_join [OF assms] scan_post_type_find
      scan_image_count_find str_in_iff_sublist split: option.splits)

text \<open>
  Claim C3.  For a plan given by its lines, the type is decided by the first line whose
  upper-cased text contains \<^verbatim>\<open>POST_TYPE:\<close>: it is CAROUSEL when the upper-cased line
  contains \<^verbatim>\<open>CAROUSEL\<close> and SINGLE for every other value on that line; a plan with
  no such line is SINGLE.  Lines after the first marker line are not read.
\<close>

theorem post_type_first_marker_line:
  assumes "ls \<noteq> []" and "\<forall>l\<in>set ls. newline \<notin> set l"
  shows "\<exists>image_count. parse_plan (join [newline] ls) =
     Inr (case find (\<lambda>l. sublist ''POST_TYPE:'' (upper l)) ls of
            None \<Rightarrow> SINGLE
          | Some l \<Rightarrow> if sublist ''CAROUSEL'' (upper l) then CAROUSEL else SINGLE,
          image_count)"
  by (simp add: parse_plan_lines [OF assms] split: option.splits)

text \<open>Three plans: the second marker line and the count line are not read; the marker
  and the keyword are found in small letters, before a later marker line; the word
  carousel outside a marker line decides nothing.\<close>

theorem post_type_first_marker_line_witness:
  "(\<exists>n. parse_plan ''POST_TYPE: SINGLE\<newline>POST_TYPE: CAROUSEL\<newline>IMAGE_COUNT: 5'' =
          Inr (SINGLE, n))
   \<and> (\<exists>n. parse_plan ''Plan\<newline>post_type: Carousel (5 slides)\<newline>POST_TYPE: SINGLE'' =
          Inr (CAROUSEL, n))
   \<and> (\<exists>n. parse_plan ''A carousel would suit this story'' = Inr (SINGLE, n))"
proof (intro conjI)
  show "\<exists>n. parse_plan ''POST_TYPE: SINGLE\<newline>POST_TYPE: CAROUSEL\<newline>IMAGE_COUNT: 5'' =
          Inr (SINGLE, n)"
    using post_type_first_marker_line
      [of "[''POST_TYPE: SINGLE'', ''POST_TYPE: CAROUSEL'', ''IMAGE_COUNT: 5'']"]
    by (simp add: newline_def upper_def upper_char_def flip: str_in_iff_sublist)
  show "\<exists>n. parse_plan ''Plan\<newline>post_type: Carousel (5 slides)\<newline>POST_TYPE: SINGLE'' =
          Inr (CAROUSEL, n)"
    using post_type_first_marker_line
      [of "[''Plan'', ''post_type: Carousel (5 slides)'', ''POST_TYPE: SINGLE'']"]
    by (simp add: newline_def upper_def upper_char_def flip: str_in_iff_sublist)
  show "\<exists>n. parse_plan ''A carousel would suit this story'' = Inr (SINGLE, n)"
    using post_type_first_marker_line [of "[''A carousel would suit this story'']"]
    by (simp add: newline_def upper_def upper_char_def flip: str_in_iff_sublist)
qed

lemmas plan_eval = parse_plan_def str_split_def newline_def upper_def upper_char_def
  isdigit_def count_from_line_def py_int_def decimal_value_def int_max_str_digits_def Let_def

section \<open>The number of images\<close>

text \<open>
  Claim C1, as stated, fails on the code in three ways, each shown at one plan: the code
  joins every digit of the marker line, so \<^verbatim>\<open>4 of 10\<close> reads as 410 and gives 10 where
  the first run of digits gives 4; a marker line without digits leaves the count at its
  initial value 1, not 3; and a plan that is not a carousel never has its count line
  read.
\<close>

theorem image_count_counterexample:
  "parse_plan ''POST_TYPE: CAROUSEL\<newline>IMAGE_COUNT: 4 of 10'' = Inr (CAROUSEL, 10)
   \<and> claimed_count_of_line ''IMAGE_COUNT: 4 of 10'' = 4
   \<and> parse_plan ''POST_TYPE: CAROUSEL\<newline>IMAGE_COUNT: four'' = Inr (CAROUSEL, 1)
   \<and> claimed_count_of_line ''IMAGE_COUNT: four'' = 3
   \<and> parse_plan ''POST_TYPE: SINGLE\<newline>IMAGE_COUNT: 5'' = Inr (SINGLE, 1)
   \<and> claimed_count_of_line ''IMAGE_COUNT: 5'' = 5"
  by (simp add: plan_eval claimed_count_of_line_def first_digit_run_def)

text \<open>
  Claim C1, amended.  For a plan given by its lines: when the plan is a carousel, the
  count comes from the first line whose upper-cased text contains \<^verbatim>\<open>IMAGE_COUNT:\<close>.
  All digit characters of that line are joined in order; when there is at least one, the
  count is the number they write clamped into 2..10 if \<^verbatim>\<open>int\<close> accepts them, and 3
  if \<^verbatim>\<open>int\<close> raises, so in both cases it lies in 2..10.  When the plan is SINGLE the
  count line is not read: the count is 1 whatever the lines say.
\<close>

theorem image_count_all_digits:
  assumes "ls \<noteq> []" and "\<forall>l\<in>set ls. newline \<notin> set l"
  shows "(parse_plan (join [newline] ls) = Inr (CAROUSEL, image_count) \<longrightarrow>
            find (\<lambda>l. sublist ''IMAGE_COUNT:'' (upper l)) ls = Some line \<longrightarrow>
            filter isdigit line \<noteq> [] \<longrightarrow>
            image_count =
              (case py_int (filter isdigit line) of Inl e \<Rightarrow> 3 | Inr n \<Rightarrow> max 2 (min 10 n))
            \<and> 2 \<le> image_count \<and> image_count \<le> 10)
         \<and> (parse_plan (join [newline] ls) = Inr (SINGLE, image_count) \<longrightarrow> image_count = 1)"
  by (auto simp: parse_plan_lines [OF assms] split: option.splits if_splits sum.splits)

text \<open>Five plans.  In the first the type line carries a digit that is not part of the
  count and a second count line follows the first: the count is 4.  Then the examples of
  the claim, 247 and 1; a superscript two, a digit that \<^verbatim>\<open>int\<close> rejects; and a SINGLE
  plan with a count line.\<close>

theorem image_count_all_digits_witness:
  "parse_plan ''POST_TYPE: CAROUSEL 9\<newline>IMAGE_COUNT: 4\<newline>IMAGE_COUNT: 6'' = Inr (CAROUSEL, 4)
   \<and> parse_plan ''POST_TYPE: CAROUSEL\<newline>IMAGE_COUNT: 247'' = Inr (CAROUSEL, 10)
   \<and> parse_plan ''POST_TYPE: CAROUSEL\<newline>IMAGE_COUNT: 1'' = Inr (CAROUSEL, 2)
   \<and> parse_plan (''POST_TYPE: CAROUSEL\<newline>IMAGE_COUNT: '' @ [CHR 0xB2]) = Inr (CAROUSEL, 3)
   \<and> parse_plan ''POST_TYPE: SINGLE\<newline>IMAGE_COUNT: 5'' = Inr (SINGLE, 1)"
proof (intro conjI)
  let ?marker = "\<lambda>l. sublist ''IMAGE_COUNT:'' (upper l)"
  show "parse_plan ''POST_TYPE: CAROUSEL 9\<newline>IMAGE_COUNT: 4\<newline>IMAGE_COUNT: 6'' = Inr (CAROUSEL, 4)"
  proof -
    let ?ls = "[''POST_TYPE: CAROUSEL 9'', ''IMAGE_COUNT: 4'', ''IMAGE_COUNT: 6'']"
    let ?p = "''POST_TYPE: CAROUSEL 9\<newline>IMAGE_COUNT: 4\<newline>IMAGE_COUNT: 6''"
    have j: "join [newline] ?ls = ?p" and ne: "?ls \<noteq> []"
      and nl: "\<forall>l\<in>set ?ls. newline \<notin> set l"
      by (simp_all add: newline_def)
    have "\<exists>n. parse_plan ?p = Inr (CAROUSEL, n)"
      by (simp add: plan_eval)
    then obtain n where n: "parse_plan ?p = Inr (CAROUSEL, n)" ..
    have f: "find ?marker ?ls = Some ''IMAGE_COUNT: 4''"
      by (simp add: upper_def upper_char_def flip: str_in_iff_sublist)
    have d: "filter isdigit ''IMAGE_COUNT: 4'' = ''4''"
      by (simp add: isdigit_def)
    have v: "py_int ''4'' = Inr 4"
      by (simp add: plan_eval)
    have "filter isdigit ''IMAGE_COUNT: 4'' \<noteq> []"
      unfolding d by simp
    from image_count_all_digits [OF ne nl, unfolded j, THEN conjunct1, rule_format, OF n f this]
    have "n = 4"
      unfolding d v by simp
    with n show ?thesis by (simp only:)
  qed
  show "parse_plan ''POST_TYPE: CAROUSEL\<newline>IMAGE_COUNT: 247'' = Inr (CAROUSEL, 10)"
  proof -
    let ?ls = "[''POST_TYPE: CAROUSEL'', ''IMAGE_COUNT: 247'']"
    let ?p = "''POST_TYPE: CAROUSEL\<newline>IMAGE_COUNT: 247''"
    have j: "join [newline] ?ls = ?p" and ne: "?ls \<noteq> []"
      and nl: "\<forall>l\<in>set ?ls. newline \<notin> set l"
      by (simp_all add: newline_def)
    have "\<exists>n. parse_plan ?p = Inr (CAROUSEL, n)"
      by (simp add: plan_eval)
    then obtain n where n: "parse_plan ?p = Inr (CAROUSEL, n)" ..
    have f: "find ?marker ?ls = Some ''IMAGE_COUNT: 247''"
      by (simp add: upper_def upper_char_def flip: str_in_iff_sublist)
    have d: "filter isdigit ''IMAGE_COUNT: 247'' = ''247''"
      by (simp add: isdigit_def)
    have v: "py_int ''247'' = Inr 247"
      by (simp add: plan_eval)
    have "filter isdigit ''IMAGE_COUNT: 247'' \<noteq> []"
      unfolding d by simp
    from image_count_all_digits [OF ne nl, unfolded j, THEN conjunct1, rule_format, OF n f this]
    have "n = 10"
      unfolding d v by simp
    with n show ?thesis by (simp only:)
  qed
  show "parse_plan ''POST_TYPE: CAROUSEL\<newline>IMAGE_COUNT: 1'' = Inr (CAROUSEL, 2)"
  proof -
    let ?ls = "[''POST_TYPE: CAROUSEL'', ''IMAGE_COUNT: 1'']"
    let ?p = "''POST_TYPE: CAROUSEL\<newline>IMAGE_COUNT: 1''"
    have j: "join [newline] ?ls = ?p" and ne: "?ls \<noteq> []"
      and nl: "\<forall>l\<in>set ?ls. newline \<notin> set l"
      by (simp_all add: newline_def)
    have "\<exists>n. parse_plan ?p = Inr (CAROUSEL, n)"
      by (simp add: plan_eval)
    then obtain n where n: "parse_plan ?p = Inr (CAROUSEL, n)" ..
    have f: "find ?marker ?ls = Some ''IMAGE_COUNT: 1''"
      by (simp add: upper_def upper_char_def flip: str_in_iff_sublist)
    have d: "filter isdigit ''IMAGE_COUNT: 1'' = ''1''"
      by (simp add: isdigit_def)
    have v: "py_int ''1'' = Inr 1"
      by (simp add: plan_eval)
    have "filter isdigit ''IMAGE_COUNT: 1'' \<noteq> []"
      unfolding d by simp
    from image_count_all_digits [OF ne nl, unfolded j, THEN conjunct1, rule_format, OF n f this]
    have "n = 2"
      unfolding d v by simp
    with n show ?thesis by (simp only:)
  qed
  show "parse_plan (''POST_TYPE: CAROUSEL\<newline>IMAGE_COUNT: '' @ [CHR 0xB2]) = Inr (CAROUSEL, 3)"
  proof -
    let ?l = "''IMAGE_COUNT: '' @ [CHR 0xB2]"
    let ?ls = "[''POST_TYPE: CAROUSEL'', ?l]"
    let ?p = "''POST_TYPE: CAROUSEL\<newline>IMAGE_COUNT: '' @ [CHR 0xB2]"
    have j: "join [newline] ?ls = ?p" and ne: "?ls \<noteq> []"
      and nl: "\<forall>l\<in>set ?ls. newline \<notin> set l"
      by (simp_all add: newline_def)
    have "\<exists>n. parse_plan ?p = Inr (CAROUSEL, n)"
      by (simp add: plan_eval)
    then obtain n where n: "parse_plan ?p = Inr (CAROUSEL, n)" ..
    have f: "find ?marker ?ls = Some ?l"
      by (simp add: upper_def upper_char_def flip: str_in_iff_sublist)
    have d: "filter isdigit ?l = [CHR 0xB2]"
      by (simp add: isdigit_def)
    have "\<exists>e. py_int [CHR 0xB2] = Inl e"
      by (simp add: plan_eval)
    then obtain e where v: "py_int [CHR 0xB2] = Inl e" ..
    have "filter isdigit ?l \<noteq> []"
      unfolding d by simp
    from image_count_all_digits [OF ne nl, unfolded j, THEN conjunct1, rule_format, OF n f this]
    have "n = 3"
      unfolding d v by simp
    with n show ?thesis by (simp only:)
  qed
  show "parse_plan ''POST_TYPE: SINGLE\<newline>IMAGE_COUNT: 5'' = Inr (SINGLE, 1)"
  proof -
    let ?ls = "[''POST_TYPE: SINGLE'', ''IMAGE_COUNT: 5'']"
    let ?p = "''POST_TYPE: SINGLE\<newline>IMAGE_COUNT: 5''"
    have j: "join [newline] ?ls = ?p" and ne: "?ls \<noteq> []"
      and nl: "\<forall>l\<in>set ?ls. newline \<notin> set l"
      by (simp_all add: newline_def)
    have "\<exists>n. parse_plan ?p = Inr (SINGLE, n)"
      by (simp add: plan_eval)
    then obtain n where n: "parse_plan ?p = Inr (SINGLE, n)" ..
    from image_count_all_digits [OF ne nl, unfolded j, THEN conjunct2, rule_format, OF n]
    have "n = 1" .
    with n show ?thesis by (simp only:)
  qed
qed

section \<open>The parser as a whole\<close>

text \<open>
  Claim C5.  Reading the plan never raises: \<open>parse_plan_lines\<close> gives the pair of a type
  and a count for every plan, the only raising call, \<^verbatim>\<open>int\<close>, being caught.  But not
  every path on which a field is missing ends in the declared default.  For a carousel
  whose count line holds no digit, and for a carousel without a count line, the count
  stays at 1, the value the handler starts from; the default for a carousel is 3, and a
  carousel has 2 to 10 images.  The two plans below take these paths.
\<close>

theorem carousel_count_left_at_one:
  "parse_plan ''POST_TYPE: CAROUSEL\<newline>IMAGE_COUNT: several'' = Inr (CAROUSEL, 1)
   \<and> parse_plan ''POST_TYPE: CAROUSEL\<newline>One slide for each finalist'' = Inr (CAROUSEL, 1)"
  by (simp add: plan_eval)

section \<open>The legal research assistant: the text of a response\<close>

lemma collect_text_eq:
  "collect_text blocks text_parts = Inr (text_parts @ [t. TextBlock t \<leftarrow> blocks])"
proof (induction blocks arbitrary: text_parts)
  case Nil
  show ?case by simp
next
  case (Cons block rest)
  show ?case
    by (cases block) (simp_all add: Cons.IH)
qed

lemma join_butlast:
  "ps \<noteq> [] \<Longrightarrow> join sep ps = concat (map (\<lambda>p. p @ sep) (butlast ps)) @ last ps"
  by (induction sep ps rule: join.induct) simp_all

lemma join_library:
  "join sep ps =
     (if ps = [] then [] else concat (map (\<lambda>p. p @ sep) (butlast ps)) @ last ps)"
  by (cases "ps = []") (simp_all add: join_butlast)

lemma extract_text_eq:
  "extract_text_from_response msg =
     Inr (join [newline, newline] [t. TextBlock t \<leftarrow> content msg])"
  by (simp add: extract_text_from_response_def collect_text_eq)

text \<open>
  Claim C9.  The extractor never raises and returns the texts of the text blocks of the
  message, in their order, with every text but the last followed by a blank-line break;
  blocks of any other type contribute nothing.  A message without a text block gives the
  empty string.
\<close>

theorem extract_text_only_text_blocks:
  "extract_text_from_response msg =
     Inr (let texts = [t. TextBlock t \<leftarrow> content msg]
          in if texts = [] then []
             else concat (map (\<lambda>t. t @ ''\<newline>\<newline>'') (butlast texts)) @ last texts)"
  by (simp only: extract_text_eq join_library Let_def newline_def)

theorem extract_text_only_text_blocks_witness:
  "extract_text_from_response
     \<lparr>content = [ThinkingBlock ''weigh the precedents'', TextBlock ''Summary'',
                 ServerToolUseBlock ''search'', WebSearchToolResultBlock ''hits'',
                 TextBlock ''Cases'', RedactedThinkingBlock ''...'', TextBlock ''Caveats'',
                 ThinkingBlock ''done'']\<rparr> =
     Inr ''Summary\<newline>\<newline>Cases\<newline>\<newline>Caveats''
   \<and> extract_text_from_response \<lparr>content = [ThinkingBlock ''nothing to say'']\<rparr> = Inr ''''"
proof (intro conjI)
  show "extract_text_from_response
     \<lparr>content = [ThinkingBlock ''weigh the precedents'', TextBlock ''Summary'',
                 ServerToolUseBlock ''search'', WebSearchToolResultBlock ''hits'',
                 TextBlock ''Cases'', RedactedThinkingBlock ''...'', TextBlock ''Caveats'',
                 ThinkingBlock ''done'']\<rparr> =
     Inr ''Summary\<newline>\<newline>Cases\<newline>\<newline>Caveats''"
    unfolding extract_text_only_text_blocks by simp
  show "extract_text_from_response \<lparr>content = [ThinkingBlock ''nothing to say'']\<rparr> = Inr ''''"
    unfolding extract_text_only_text_blocks by simp
qed

section \<open>The research endpoint\<close>

lemma strip_Nil: "strip [] = []"
  by (simp add: strip_def)

text \<open>
  Claim C8.  The answers of \<^verbatim>\<open>POST /research\<close>, case by case.  When reading the body
  raises, when the body is not an object, or when the question is not a string, the
  answer is 500 with an error text and \<open>success\<close> false, and no remote call is made.
  When the question is absent or is empty after trimming, the answer is 400, and no
  remote call is made.  Otherwise the trimmed question is sent; if the first or the
  second remote call raises, the answer is 500 with the text of that exception and
  \<open>success\<close> false; if both return, the answer is 200 with the extracted text of the
  second response as \<open>result\<close> and \<open>success\<close> true.
\<close>

theorem research_status_codes:
  fixes create :: "'w messages_api"
  shows
  "(\<forall>e. get_json = Inl e \<longrightarrow> research create get_json w = (research_failed e, w))
   \<and> (\<forall>v. get_json = Inr v \<longrightarrow> (\<forall>members. v \<noteq> JObj members) \<longrightarrow>
          (\<exists>e. research create get_json w = (research_failed e, w)))
   \<and> (\<forall>members. get_json = Inr (JObj members) \<longrightarrow>
        (case map_of (rev members) ''question'' of
           None \<Rightarrow>
             research create get_json w =
               (\<lparr>status = 400,
                 body = [(''error'', JStr ''Please provide a legal question.'')]\<rparr>, w)
         | Some (JStr raw) \<Rightarrow>
             if strip raw = []
             then research create get_json w =
                    (\<lparr>status = 400,
                      body = [(''error'', JStr ''Please provide a legal question.'')]\<rparr>, w)
             else
               (case create \<lparr>system = None,
                              messages = [(''user'',
                                           Input_text (Research_instructions (strip raw)))],
                              web_search = True\<rparr> w of
                  (Inl e, w1) \<Rightarrow> research create get_json w = (research_failed e, w1)
                | (Inr first_response, w1) \<Rightarrow>
                    (case create
                            \<lparr>system = Some ''STYLE: CONCISE, EXPLANATORY. You are a legal assistant specializing in Indian case law'',
                             messages = [(''user'', Input_text (Plain (strip raw))),
                                         (''assistant'', Blocks (content first_response)),
                                         (''user'', Input_text (Plain (strip raw)))],
                             web_search = False\<rparr> w1 of
                       (Inl e, w2) \<Rightarrow> research create get_json w = (research_failed e, w2)
                     | (Inr second_response, w2) \<Rightarrow>
                         (case extract_text_from_response second_response of
                            Inl e \<Rightarrow> research create get_json w = (research_failed e, w2)
                          | Inr final_result \<Rightarrow>
                              research create get_json w =
                                (\<lparr>status = 200,
                                  body = [(''result'', JStr final_result),
                                          (''success'', JBool True)]\<rparr>, w2))))
         | Some other \<Rightarrow> (\<exists>e. research create get_json w = (research_failed e, w))))"
proof (intro conjI allI impI)
  fix e
  assume "get_json = Inl e"
  then show "research create get_json w = (research_failed e, w)"
    by (simp add: research_def research_try_def read_question_def)
next
  fix v
  assume "get_json = Inr v" and "\<forall>members. v \<noteq> JObj members"
  then show "\<exists>e. research create get_json w = (research_failed e, w)"
    by (cases v) (auto simp add: research_def research_try_def read_question_def)
next
  fix members
  assume body: "get_json = Inr (JObj members)"
  show "case map_of (rev members) ''question'' of
           None \<Rightarrow>
             research create get_json w =
               (\<lparr>status = 400,
                 body = [(''error'', JStr ''Please provide a legal question.'')]\<rparr>, w)
         | Some (JStr raw) \<Rightarrow>
             if strip raw = []
             then research create get_json w =
                    (\<lparr>status = 400,
                      body = [(''error'', JStr ''Please provide a legal question.'')]\<rparr>, w)
             else
               (case create \<lparr>system = None,
                              messages = [(''user'',
                                           Input_text (Research_instructions (strip raw)))],
                              web_search = True\<rparr> w of
                  (Inl e, w1) \<Rightarrow> research create get_json w = (research_failed e, w1)
                | (Inr first_response, w1) \<Rightarrow>
                    (case create
                            \<lparr>system = Some ''STYLE: CONCISE, EXPLANATORY. You are a legal assistant specializing in Indian case law'',
                             messages = [(''user'', Input_text (Plain (strip raw))),
                                         (''assistant'', Blocks (content first_response)),
                                         (''user'', Input_text (Plain (strip raw)))],
                             web_search = False\<rparr> w1 of
                       (Inl e, w2) \<Rightarrow> research create get_json w = (research_failed e, w2)
                     | (Inr second_response, w2) \<Rightarrow>
                         (case extract_text_from_response second_response of
                            Inl e \<Rightarrow> research create get_json w = (research_failed e, w2)
                          | Inr final_result \<Rightarrow>
                              research create get_json w =
                                (\<lparr>status = 200,
                                  body = [(''result'', JStr final_result),
                                          (''success'', JBool True)]\<rparr>, w2))))
         | Some other \<Rightarrow> (\<exists>e. research create get_json w = (research_failed e, w))"
  proof (cases "map_of (rev members) ''question''")
    case None
    with body show ?thesis
      by (simp add: research_def research_try_def read_question_def strip_Nil)
  next
    case (Some q)
    show ?thesis
    proof (cases q)
      case (JStr raw)
      with body Some show ?thesis
        by (simp add: research_def research_try_def read_question_def
            make_initial_research_call_def make_followup_call_def
            split: prod.splits sum.splits)
    qed (use body Some in \<open>auto simp add: research_def research_try_def read_question_def\<close>)
  qed
qed

text \<open>Six requests to the service that answers ten calls: a blank question and a
  missing one; a padded question, answered after two calls; a body that is a list; a
  request that finds the service exhausted at once, and one that finds it exhausted at
  the second call.\<close>

theorem research_status_codes_witness:
  "research ten_calls (Inr (JObj [(''question'', JStr ''  '')])) 0 =
     (\<lparr>status = 400, body = [(''error'', JStr ''Please provide a legal question.'')]\<rparr>, 0)
   \<and> research ten_calls (Inr (JObj [(''topic'', JStr ''bail'')])) 0 =
     (\<lparr>status = 400, body = [(''error'', JStr ''Please provide a legal question.'')]\<rparr>, 0)
   \<and> research ten_calls (Inr (JObj [(''question'', JStr '' bail terms  '')])) 0 =
     (\<lparr>status = 200,
       body = [(''result'', JStr ''On bail terms\<newline>\<newline>Cases\<newline>\<newline>Caveats''),
               (''success'', JBool True)]\<rparr>, 2)
   \<and> (\<exists>e. research ten_calls (Inr (JArr [])) 0 = (research_failed e, 0))
   \<and> research ten_calls (Inr (JObj [(''question'', JStr ''bail'')])) 10 =
       (research_failed rate_limited, 11)
   \<and> research ten_calls (Inr (JObj [(''question'', JStr ''bail'')])) 9 =
       (research_failed rate_limited, 11)"
proof (intro conjI)
  note ev = ten_calls_def strip_def isspace_def extract_text_from_response_def newline_def
  show "research ten_calls (Inr (JObj [(''question'', JStr ''  '')])) 0 =
     (\<lparr>status = 400, body = [(''error'', JStr ''Please provide a legal question.'')]\<rparr>, 0)"
    using research_status_codes [of "Inr (JObj [(''question'', JStr ''  '')])" ten_calls 0]
    by (simp add: ev)
  show "research ten_calls (Inr (JObj [(''topic'', JStr ''bail'')])) 0 =
     (\<lparr>status = 400, body = [(''error'', JStr ''Please provide a legal question.'')]\<rparr>, 0)"
    using research_status_codes [of "Inr (JObj [(''topic'', JStr ''bail'')])" ten_calls 0]
    by (simp add: ev)
  show "research ten_calls (Inr (JObj [(''question'', JStr '' bail terms  '')])) 0 =
     (\<lparr>status = 200,
       body = [(''result'', JStr ''On bail terms\<newline>\<newline>Cases\<newline>\<newline>Caveats''),
               (''success'', JBool True)]\<rparr>, 2)"
    using research_status_codes
      [of "Inr (JObj [(''question'', JStr '' bail terms  '')])" ten_calls 0]
    by (simp add: ev)
  show "\<exists>e. research ten_calls (Inr (JArr [])) 0 = (research_failed e, 0)"
    using research_status_codes [of "Inr (JArr [])" ten_calls 0]
    by simp
  show "research ten_calls (Inr (JObj [(''question'', JStr ''bail'')])) 10 =
       (research_failed rate_limited, 11)"
    using research_status_codes [of "Inr (JObj [(''question'', JStr ''bail'')])" ten_calls 10]
    by (simp add: ev)
  show "research ten_calls (Inr (JObj [(''question'', JStr ''bail'')])) 9 =
       (research_failed rate_limited, 11)"
    using research_status_codes [of "Inr (JObj [(''question'', JStr ''bail'')])" ten_calls 9]
    by (simp add: ev)
qed

section \<open>Deleting and reading a post\<close>

lemma and_then_Inr:
  assumes "and_then m f w = (Inr b, w')"
  obtains a w1 where "m w = (Inr a, w1)" and "f a w1 = (Inr b, w')"
  using assms by (auto simp: and_then_def split: prod.splits sum.splits)

lemma attempt_preserves:
  "attempt svc operation w = (r, w') \<Longrightarrow> db w' = db w \<and> image_files w' = image_files w"
  by (auto simp: attempt_def split: prod.splits option.splits)

lemma attempt_no_fault:
  assumes "\<forall>operation x. fst (fails svc operation x) = None"
  shows "attempt svc operation w =
           (Inr (), w\<lparr>outside := snd (fails svc operation (outside w))\<rparr>)"
proof -
  obtain f x where fx: "fails svc operation (outside w) = (f, x)"
    by (cases "fails svc operation (outside w)")
  with assms have "f = None"
    by (metis fst_conv)
  with fx show ?thesis
    by (simp add: attempt_def)
qed

lemma delete_image_files_db: "db (delete_image_files svc urls w) = db w"
proof (induction urls arbitrary: w)
  case Nil
  show ?case by simp
next
  case (Cons url rest)
  show ?case
    by (auto simp: Let_def Cons.IH split: prod.splits sum.splits dest!: attempt_preserves)
qed

lemma delete_post_try_success:
  assumes "delete_post_try svc post_id w = (Inr r, w')"
  shows "posts (db w') = filter (\<lambda>row. p_id row \<noteq> post_id) (posts (db w))"
    and "post_images (db w') = filter (\<lambda>row. i_post_id row \<noteq> post_id) (post_images (db w))"
    and "posts_sequence (db w') = posts_sequence (db w)"
    and "post_images_sequence (db w') = post_images_sequence (db w)"
  using assms unfolding delete_post_try_def
  by (auto simp: Let_def returns_def delete_image_files_db
      elim!: and_then_Inr dest!: attempt_preserves)

lemma delete_post_success:
  assumes "delete_post svc post_id w = (r, w')" and "status r = 200"
  shows "delete_post_try svc post_id w = (Inr r, w')"
  using assms by (auto simp: delete_post_def or_500_def split: prod.splits sum.splits)

lemma find_absent: "\<forall>x\<in>set xs. \<not> P x \<Longrightarrow> find P xs = None"
  by (simp add: find_None_iff)

lemma get_post_absent:
  assumes "\<forall>row\<in>set (posts (db w)). p_id row \<noteq> post_id"
  shows "status (fst (get_post svc post_id w)) \<noteq> 200"
    and "\<forall>operation x. fst (fails svc operation x) = None \<Longrightarrow>
           fst (get_post svc post_id w) =
             \<lparr>status = 404, body = [(''error'', JStr ''Post not found'')]\<rparr>"
proof -
  have none: "find (\<lambda>row. p_id row = post_id) (posts (db w)) = None"
    using assms by (simp add: find_None_iff)
  show "status (fst (get_post svc post_id w)) \<noteq> 200"
    by (auto simp: get_post_def or_500_def get_post_try_def and_then_def returns_def none
        split: prod.splits sum.splits dest!: attempt_preserves)
  show "fst (get_post svc post_id w) =
          \<lparr>status = 404, body = [(''error'', JStr ''Post not found'')]\<rparr>"
    if "\<forall>operation x. fst (fails svc operation x) = None"
    by (simp add: get_post_def or_500_def get_post_try_def and_then_def returns_def none
        attempt_no_fault [OF that])
qed

text \<open>
  Claim C7.  When \<^verbatim>\<open>delete_post\<close> answers 200, the database it leaves holds the rows
  it held before without the row of the post and without the image rows of the post, so
  no row of either table carries the identifier.  In any later world with that database
  \<^verbatim>\<open>get_post\<close> for the identifier does not answer 200, and it answers 404 with
  \<^verbatim>\<open>Post not found\<close> when no database operation fails.
\<close>

theorem delete_post_removes_rows:
  assumes "delete_post svc post_id w = (r, w')" and "status r = 200"
  shows "posts (db w') = filter (\<lambda>row. p_id row \<noteq> post_id) (posts (db w))
         \<and> post_images (db w') =
             filter (\<lambda>row. i_post_id row \<noteq> post_id) (post_images (db w))
         \<and> (\<forall>row\<in>set (posts (db w')). p_id row \<noteq> post_id)
         \<and> (\<forall>row\<in>set (post_images (db w')). i_post_id row \<noteq> post_id)
         \<and> (\<forall>svc2 w2. db w2 = db w' \<longrightarrow>
               status (fst (get_post svc2 post_id w2)) \<noteq> 200
               \<and> ((\<forall>operation x. fst (fails svc2 operation x) = None) \<longrightarrow>
                    fst (get_post svc2 post_id w2) =
                      \<lparr>status = 404, body = [(''error'', JStr ''Post not found'')]\<rparr>))"
proof -
  note succeeded = delete_post_success [OF assms]
  have p: "posts (db w') = filter (\<lambda>row. p_id row \<noteq> post_id) (posts (db w))"
    and i: "post_images (db w') =
              filter (\<lambda>row. i_post_id row \<noteq> post_id) (post_images (db w))"
    using delete_post_try_success [OF succeeded] by simp_all
  have gone: "\<forall>row\<in>set (posts (db w')). p_id row \<noteq> post_id"
    unfolding p by simp
  have images_gone: "\<forall>row\<in>set (post_images (db w')). i_post_id row \<noteq> post_id"
    unfolding i by simp
  have "status (fst (get_post svc2 post_id w2)) \<noteq> 200
        \<and> ((\<forall>operation x. fst (fails svc2 operation x) = None) \<longrightarrow>
             fst (get_post svc2 post_id w2) =
               \<lparr>status = 404, body = [(''error'', JStr ''Post not found'')]\<rparr>)"
    if "db w2 = db w'" for svc2 w2
    using get_post_absent [of w2 post_id svc2] gone that by simp
  with p i gone images_gone show ?thesis
    by blast
qed

lemmas handler_eval =
  or_500_def and_then_def attempt_def returns_def call_def ask_def from_result_def Let_def

lemma studio_never_fails: "\<forall>operation x. fst (fails (studio plan) operation x) = None"
  by (simp add: studio_def)

theorem delete_post_removes_rows_witness:
  "status (fst (get_post (studio []) 1 newsroom)) = 200
   \<and> status (fst (delete_post (studio []) 1 newsroom)) = 200
   \<and> map p_id (posts (db (snd (delete_post (studio []) 1 newsroom)))) = [2]
   \<and> map i_id (post_images (db (snd (delete_post (studio []) 1 newsroom)))) = [3]
   \<and> fst (get_post (studio []) 1 (snd (delete_post (studio []) 1 newsroom))) =
       \<lparr>status = 404, body = [(''error'', JStr ''Post not found'')]\<rparr>"
proof -
  have before: "status (fst (get_post (studio []) 1 newsroom)) = 200"
    by (simp add: get_post_def get_post_try_def handler_eval studio_def newsroom_def
        two_posts_def)
  have run: "delete_post (studio []) 1 newsroom =
               (fst (delete_post (studio []) 1 newsroom),
                snd (delete_post (studio []) 1 newsroom))"
    by simp
  have ok: "status (fst (delete_post (studio []) 1 newsroom)) = 200"
    by (simp add: delete_post_def delete_post_try_def handler_eval studio_def newsroom_def
        two_posts_def str_split_def)
  have rows: "posts (db newsroom) = posts two_posts"
    "post_images (db newsroom) = post_images two_posts"
    by (simp_all add: newsroom_def)
  note removed = delete_post_removes_rows [OF run ok, unfolded rows]
  note removed_posts = removed [THEN conjunct1]
  note removed_images = removed [THEN conjunct2, THEN conjunct1]
  note fetch = removed [THEN conjunct2, THEN conjunct2, THEN conjunct2, THEN conjunct2,
      rule_format, OF refl, THEN conjunct2, rule_format, OF studio_never_fails [rule_format]]
  have p: "map p_id (posts (db (snd (delete_post (studio []) 1 newsroom)))) = [2]"
    unfolding removed_posts by (simp add: two_posts_def)
  have i: "map i_id (post_images (db (snd (delete_post (studio []) 1 newsroom)))) = [3]"
    unfolding removed_images by (simp add: two_posts_def)
  have g: "fst (get_post (studio []) 1 (snd (delete_post (studio []) 1 newsroom))) =
             \<lparr>status = 404, body = [(''error'', JStr ''Post not found'')]\<rparr>"
    by (rule fetch)
  from before ok p i g show ?thesis
    by (simp only: simp_thms)
qed






end
